theory Spec2Isabelle
  imports Main "HOL-Library.Signed_Division"
begin

section \<open>The universe lifecycle of cmd/vkube/util.go\<close>

text \<open>
  The file under study is \<^verbatim>\<open>cmd/vkube/util.go\<close>. It holds the command-line flags of a
  universe, \<^verbatim>\<open>openOrCreateUniverse\<close>, which stats a directory and creates or opens a
  universe there, and \<^verbatim>\<open>runDoWithUniverse\<close>, which opens the universe, runs a work
  function on it, reports the elapsed time, optionally waits for ctrl+C, and then saves
  or closes the universe.

  The virtuakube package, the file system, the clock and the signal source are outside
  the file. They are parameters of the model (the record \<open>world\<close>), and every call the
  code makes to them is written to a trace, in the order of the calls.
\<close>

subsection \<open>Errors\<close>

text \<open>
  A Go \<^verbatim>\<open>error\<close> is modelled by its message and by what \<^verbatim>\<open>os.IsNotExist\<close> answers on
  it. \<^verbatim>\<open>errors.New\<close> and \<^verbatim>\<open>fmt.Errorf\<close> with the verb \<^verbatim>\<open>%v\<close> build a plain error from
  a string, on which \<^verbatim>\<open>os.IsNotExist\<close> is false. A nil error is \<open>None\<close>.
\<close>

datatype error = ErrNotExist string | ErrOther string

fun Error :: "error \<Rightarrow> string" where
  "Error (ErrNotExist m) = m"
| "Error (ErrOther m) = m"

definition errors_New :: "string \<Rightarrow> error" where
  "errors_New m = ErrOther m"

text \<open>\<^verbatim>\<open>fmt.Errorf(prefix + "%v", err)\<close>: the prefix followed by the message of \<open>err\<close>.\<close>

definition Errorf :: "string \<Rightarrow> error \<Rightarrow> error" where
  "Errorf prefix err = ErrOther (prefix @ Error err)"

fun IsNotExist :: "error option \<Rightarrow> bool" where
  "IsNotExist (Some (ErrNotExist m)) = True"
| "IsNotExist (Some (ErrOther m)) = False"
| "IsNotExist None = False"

subsection \<open>Flags and configuration\<close>

record universeFlags =
  dir :: string
  snapshot :: string
  verbose :: bool
  vmgraphics :: bool
  acceleration :: bool
  wait :: bool
  save :: bool
  saveName :: string

datatype writer = Stdout

record UniverseConfig =
  VMGraphics :: bool
  Interactive :: bool
  NoAcceleration :: bool
  CommandLog :: "writer option"

subsection \<open>The world outside the file, and the trace of calls\<close>

text \<open>
  \<open>'u\<close> is the state of a universe handle. The work function returns its error and
  the state it leaves the universe in. \<open>u_Save\<close> and \<open>u_Close\<close> return the error of
  the call; the state they leave is never read by the code, since nothing is called after
  them but the deferred \<^verbatim>\<open>u.Close()\<close>, whose error is dropped. \<open>time_Since\<close> is what \<^verbatim>\<open>time.Since(start)\<close> returns, in
  nanoseconds. \<open>ctx_Done\<close> says whether the context is ever cancelled while the code
  waits on \<^verbatim>\<open><-ctx.Done()\<close>; when it is not, the wait never ends.
\<close>

record 'u world =
  os_Stat :: "string \<Rightarrow> error option"
  vk_Create :: "string \<Rightarrow> UniverseConfig \<Rightarrow> error + 'u"
  vk_Open :: "string \<Rightarrow> string \<Rightarrow> UniverseConfig \<Rightarrow> error + 'u"
  u_Save :: "'u \<Rightarrow> string \<Rightarrow> error option"
  u_Close :: "'u \<Rightarrow> error option"
  u_Clusters :: "'u \<Rightarrow> (string \<times> string) list"
  u_VMs :: "'u \<Rightarrow> (string \<times> int) list"
  time_Since :: int
  ctx_Done :: bool

type_synonym 'u universeFunc = "'u \<Rightarrow> error option \<times> 'u"

datatype printed =
    OperationTook int
  | ResourcesAvailable
  | ClusterLine string string
  | MachineLine string int
  | HitCtrlC
  | SavingUniverse
  | ClosingUniverse

datatype event =
    CallStat string
  | CallCreate string UniverseConfig
  | CallOpen string string UniverseConfig
  | CallDo
  | CallSave string
  | CallClose
  | CallCancel
  | WaitDone
  | Print printed

subsection \<open>openOrCreateUniverse\<close>

text \<open>
  Lines 132 to 139: the configuration built from the arguments; the command log is
  standard output when \<^verbatim>\<open>verbose\<close> is set.
\<close>

definition mkConfig :: "bool \<Rightarrow> bool \<Rightarrow> bool \<Rightarrow> bool \<Rightarrow> UniverseConfig" where
  "mkConfig verb gfx interactive accel =
     (let cfg = \<lparr>VMGraphics = gfx, Interactive = interactive,
                 NoAcceleration = \<not> accel, CommandLog = None\<rparr>
      in if verb then cfg\<lparr>CommandLog := Some Stdout\<rparr> else cfg)"

text \<open>
  Lines 122 to 154. The empty directory is refused before anything is called. Then the
  directory is statted: when it does not exist the universe is created, on any other
  stat error that error is returned as it is, and otherwise the universe is opened at
  the snapshot. An error of \<^verbatim>\<open>Create\<close> or \<^verbatim>\<open>Open\<close> is returned behind a prefix.
\<close>

definition openOrCreateUniverse ::
  "'u world \<Rightarrow> string \<Rightarrow> string \<Rightarrow> bool \<Rightarrow> bool \<Rightarrow> bool \<Rightarrow> bool \<Rightarrow> (error + 'u) \<times> event list"
where
  "openOrCreateUniverse w d snap verb gfx interactive accel =
     (if d = [] then (Inl (errors_New ''universe directory not specified''), [])
      else
        let cfg = mkConfig verb gfx interactive accel;
            err = os_Stat w d
        in if IsNotExist err then
             (case vk_Create w d cfg of
                Inl e \<Rightarrow> (Inl (Errorf ''getting universe: '' e), [CallStat d, CallCreate d cfg])
              | Inr u \<Rightarrow> (Inr u, [CallStat d, CallCreate d cfg]))
           else
             (case err of
                Some e \<Rightarrow> (Inl e, [CallStat d])
              | None \<Rightarrow>
                 (case vk_Open w d snap cfg of
                    Inl e \<Rightarrow> (Inl (Errorf ''getting universe: '' e),
                              [CallStat d, CallOpen d snap cfg])
                  | Inr u \<Rightarrow> (Inr u, [CallStat d, CallOpen d snap cfg]))))"

subsection \<open>The elapsed time that is printed\<close>

text \<open>
  A \<^verbatim>\<open>time.Duration\<close> is a signed count of nanoseconds. \<^verbatim>\<open>Duration.Truncate\<close> is
  \<^verbatim>\<open>if m <= 0 { return d }; return d - d%m\<close>, where Go's \<^verbatim>\<open>%\<close> takes the sign of the
  dividend, as \<open>smod\<close> does. The result is never larger in magnitude than \<open>d\<close>, so the
  64-bit range plays no role and the integers are unbounded here.
\<close>

definition Nanosecond :: int where "Nanosecond = 1"
definition Millisecond :: int where "Millisecond = 1000000 * Nanosecond"
definition Second :: int where "Second = 1000 * Millisecond"

definition Truncate :: "int \<Rightarrow> int \<Rightarrow> int" where
  "Truncate d m = (if m \<le> 0 then d else d - d smod m)"

text \<open>The \<^verbatim>\<open>switch\<close> of lines 78 to 85, with its three cases in the order of the source.\<close>

definition displayDuration :: "int \<Rightarrow> int" where
  "displayDuration d =
     (if d < Second then Truncate d Millisecond
      else if d < Second then Truncate d (Second div 10)
      else Truncate d Second)"

subsection \<open>runDoWithUniverse\<close>

datatype result = Return "error option" | Blocked

text \<open>The name handed to \<^verbatim>\<open>u.Save\<close>, lines 103 to 106.\<close>

definition effectiveSaveName :: "universeFlags \<Rightarrow> string" where
  "effectiveSaveName flags =
     (let sn = saveName flags
      in if sn = [] \<and> sn \<noteq> snapshot flags then snapshot flags else sn)"

text \<open>
  The deferred calls of a return after line 71, in the order they run: \<^verbatim>\<open>u.Close()\<close>,
  whose error is dropped, then \<^verbatim>\<open>cancel()\<close>.
\<close>

definition deferred :: "event list" where
  "deferred = [CallClose, CallCancel]"

text \<open>Lines 88 to 99: the resources are listed and the code waits for the context.\<close>

definition waitPhase :: "'u world \<Rightarrow> 'u \<Rightarrow> event list" where
  "waitPhase w u =
     [Print ResourcesAvailable]
     @ map (\<lambda>(n, k). Print (ClusterLine n k)) (u_Clusters w u)
     @ map (\<lambda>(h, p). Print (MachineLine h p)) (u_VMs w u)
     @ [Print HitCtrlC]"

text \<open>Lines 101 to 117: save or close, then return through the deferred calls.\<close>

definition finalize :: "'u world \<Rightarrow> universeFlags \<Rightarrow> 'u \<Rightarrow> result \<times> event list" where
  "finalize w flags u =
     (if save flags then
        (case u_Save w u (effectiveSaveName flags) of
           Some e \<Rightarrow> (Return (Some (Errorf ''Saving universe: '' e)),
                      [Print SavingUniverse, CallSave (effectiveSaveName flags)] @ deferred)
         | None \<Rightarrow> (Return None,
                    [Print SavingUniverse, CallSave (effectiveSaveName flags)] @ deferred))
      else
        (case u_Close w u of
           Some e \<Rightarrow> (Return (Some (Errorf ''Closing universe: '' e)),
                      [Print ClosingUniverse, CallClose] @ deferred)
         | None \<Rightarrow> (Return None, [Print ClosingUniverse, CallClose] @ deferred)))"

text \<open>
  Lines 49 to 118, for the goroutine that runs the function. \<^verbatim>\<open>cancel()\<close> is deferred
  first and so runs last on every return. \<open>Blocked\<close> is the result when the code waits
  for a cancellation that never comes: it does not return, and no deferred call runs.
\<close>

definition runDoWithUniverse ::
  "'u world \<Rightarrow> universeFlags \<Rightarrow> 'u universeFunc \<Rightarrow> result \<times> event list"
where
  "runDoWithUniverse w flags do =
     (case openOrCreateUniverse w (dir flags) (snapshot flags) (verbose flags)
             (vmgraphics flags) (wait flags) (acceleration flags) of
        (Inl err, t0) \<Rightarrow> (Return (Some (Errorf ''Getting universe: '' err)), t0 @ [CallCancel])
      | (Inr u, t0) \<Rightarrow>
         (case do u of
            (Some err, u1) \<Rightarrow> (Return (Some err), t0 @ [CallDo] @ deferred)
          | (None, u1) \<Rightarrow>
             (let t1 = t0 @ [CallDo, Print (OperationTook (displayDuration (time_Since w)))]
              in if wait flags then
                   (if ctx_Done w then
                      (case finalize w flags u1 of
                         (r, t2) \<Rightarrow> (r, t1 @ waitPhase w u1 @ [WaitDone] @ t2))
                    else (Blocked, t1 @ waitPhase w u1))
                 else
                   (case finalize w flags u1 of (r, t2) \<Rightarrow> (r, t1 @ t2)))))"

subsection \<open>Reading a trace\<close>

text \<open>The names handed to \<^verbatim>\<open>u.Save\<close>, in the order of the calls.\<close>

fun saveCalls :: "event list \<Rightarrow> string list" where
  "saveCalls [] = []"
| "saveCalls (CallSave n # t) = n # saveCalls t"
| "saveCalls (e # t) = saveCalls t"

text \<open>The calls to \<^verbatim>\<open>u.Save\<close> and \<^verbatim>\<open>u.Close\<close>, in the order of the calls.\<close>

fun isFinalCall :: "event \<Rightarrow> bool" where
  "isFinalCall (CallSave n) = True"
| "isFinalCall CallClose = True"
| "isFinalCall e = False"

definition finalCalls :: "event list \<Rightarrow> event list" where
  "finalCalls t = filter isFinalCall t"

text \<open>The calls that \<open>openOrCreateUniverse\<close> makes.\<close>

fun isOpenPhaseCall :: "event \<Rightarrow> bool" where
  "isOpenPhaseCall (CallStat d) = True"
| "isOpenPhaseCall (CallCreate d c) = True"
| "isOpenPhaseCall (CallOpen d s c) = True"
| "isOpenPhaseCall e = False"

subsection \<open>Truncation in the words of the specification\<close>

text \<open>
  \<open>d\<close> truncated to whole units of \<open>u\<close> nanoseconds: the number of whole units in the
  magnitude of \<open>d\<close>, with the sign of \<open>d\<close>. This definition follows the specification
  and not the code; \<open>Truncate\<close> above is the code's.
\<close>

definition wholeUnits :: "int \<Rightarrow> int \<Rightarrow> int" where
  "wholeUnits d u = sgn d * (\<bar>d\<bar> div u) * u"

subsection \<open>The context, the signal channel and the listener goroutine\<close>

text \<open>
  Lines 50 to 63 create a context with its \<^verbatim>\<open>cancel\<close> function, a channel \<^verbatim>\<open>stop\<close> of
  capacity 1 that receives \<^verbatim>\<open>os.Interrupt\<close>, and a goroutine that waits in a \<^verbatim>\<open>select\<close>
  for a value on \<^verbatim>\<open>stop\<close> or for \<^verbatim>\<open>ctx.Done()\<close> and then calls \<^verbatim>\<open>cancel\<close> and ends.
  \<^verbatim>\<open>runDoWithUniverse\<close> itself calls \<^verbatim>\<open>cancel\<close> once, deferred, when it returns.

  The two goroutines and the arrival of signals interleave freely. The state below is
  what they share, and an \<open>action\<close> is one atomic move of one of them; a schedule is
  any list of actions, and an action that cannot move leaves the state as it is.
  \<open>fired\<close> counts how often the context went from not cancelled to cancelled.

  \<open>Interrupt\<close> is the delivery of one \<^verbatim>\<open>os.Interrupt\<close> to \<^verbatim>\<open>stop\<close>; \<open>SelectStop\<close> is the
  listener taking \<^verbatim>\<open>case <-stop\<close> (line 60) and \<open>SelectDone\<close> its taking
  \<^verbatim>\<open>case <-ctx.Done()\<close> (line 61), each followed by its deferred \<^verbatim>\<open>cancel()\<close> (line 58);
  \<open>MainReturn\<close> is the deferred \<^verbatim>\<open>cancel()\<close> of line 51.

  Two facts come from the Go library and not from this file: a \<^verbatim>\<open>CancelFunc\<close> does
  nothing after its first call, and the \<^verbatim>\<open>signal\<close> package does not block when it
  sends to a channel that is full, so the signal is dropped.
\<close>

record ctl =
  stopBuf :: nat
  listening :: bool
  returned :: bool
  cancelled :: bool
  fired :: nat

definition cancel :: "ctl \<Rightarrow> ctl" where
  "cancel c = (if cancelled c then c else c\<lparr>cancelled := True, fired := fired c + 1\<rparr>)"

datatype action = Interrupt | SelectStop | SelectDone | MainReturn

fun step :: "action \<Rightarrow> ctl \<Rightarrow> ctl" where
  "step Interrupt c = (if stopBuf c < 1 then c\<lparr>stopBuf := stopBuf c + 1\<rparr> else c)"
| "step SelectStop c =
     (if listening c \<and> 0 < stopBuf c
      then cancel (c\<lparr>stopBuf := stopBuf c - 1, listening := False\<rparr>) else c)"
| "step SelectDone c =
     (if listening c \<and> cancelled c then cancel (c\<lparr>listening := False\<rparr>) else c)"
| "step MainReturn c =
     (if returned c then c else cancel (c\<lparr>returned := True\<rparr>))"

definition initCtl :: ctl where
  "initCtl = \<lparr>stopBuf = 0, listening = True, returned = False, cancelled = False, fired = 0\<rparr>"

definition fireInv :: "ctl \<Rightarrow> bool" where
  "fireInv c = (fired c = (if cancelled c then 1 else 0))"

subsection \<open>A sample world\<close>

text \<open>
  One directory exists, one cannot be read, every other path does not exist. Creating
  under \<^verbatim>\<open>/proc/env\<close> fails, and so does opening the snapshot \<^verbatim>\<open>missing\<close>. A handle is
  a number: 0 when created, 1 when opened, and the work adds 10. Closing fails on the
  handle 10, that is after work on a created universe.
\<close>

definition demoWorld :: "nat world" where
  "demoWorld =
     \<lparr>os_Stat = (\<lambda>d. if d = ''/tmp/env1'' then None
                      else if d = ''/root/env'' then Some (ErrOther ''permission denied'')
                      else Some (ErrNotExist ''no such file or directory'')),
      vk_Create = (\<lambda>d c. if d = ''/proc/env'' then Inl (ErrOther ''mkdir failed'') else Inr 0),
      vk_Open = (\<lambda>d s c. if s = ''missing'' then Inl (ErrOther ''no such snapshot'') else Inr 1),
      u_Save = (\<lambda>u n. None),
      u_Close = (\<lambda>u. if u = 10 then Some (ErrOther ''close failed'') else None),
      u_Clusters = (\<lambda>u. [(''c1'', ''/tmp/env1/c1/kubeconfig'')]),
      u_VMs = (\<lambda>u. [(''vm1'', 50022)]),
      time_Since = 1234567890,
      ctx_Done = True\<rparr>"

definition demoFlags :: universeFlags where
  "demoFlags = \<lparr>dir = ''/tmp/env1'', snapshot = ''base'', verbose = False, vmgraphics = False,
     acceleration = True, wait = False, save = True, saveName = ''next''\<rparr>"

definition workOk :: "nat universeFunc" where
  "workOk u = (None, u + 10)"

definition workFails :: "nat universeFunc" where
  "workFails u = (Some (ErrOther ''boom''), u + 10)"

section \<open>Facts about traces\<close>

lemma finalCalls_simps:
  "finalCalls [] = []"
  "finalCalls (e # t) = (if isFinalCall e then e # finalCalls t else finalCalls t)"
  by (simp_all add: finalCalls_def)

lemma finalCalls_append: "finalCalls (a @ b) = finalCalls a @ finalCalls b"
  by (simp add: finalCalls_def)

lemma saveCalls_append: "saveCalls (a @ b) = saveCalls a @ saveCalls b"
  by (induction a rule: saveCalls.induct) simp_all

lemma open_trace_calls:
  "openOrCreateUniverse w d s v g i a = (r, t) \<Longrightarrow> list_all isOpenPhaseCall t"
  by (auto simp: openOrCreateUniverse_def Let_def split: if_splits sum.splits option.splits)

lemma open_calls_no_save: "list_all isOpenPhaseCall t \<Longrightarrow> saveCalls t = []"
  by (induction t rule: saveCalls.induct) simp_all

lemma open_calls_no_final: "list_all isOpenPhaseCall t \<Longrightarrow> finalCalls t = []"
  unfolding finalCalls_def by (induction t) (auto elim: isOpenPhaseCall.elims)

lemma open_calls_no_do: "list_all isOpenPhaseCall t \<Longrightarrow> CallDo \<notin> set t"
  by (induction t) auto

lemma waitPhase_no_final: "finalCalls (waitPhase w u) = []"
  by (auto simp: finalCalls_def waitPhase_def filter_empty_conv)

lemma saveCalls_cluster_lines: "saveCalls (map (\<lambda>(n, k). Print (ClusterLine n k)) xs) = []"
  by (induction xs) auto

lemma saveCalls_machine_lines: "saveCalls (map (\<lambda>(h, p). Print (MachineLine h p)) xs) = []"
  by (induction xs) auto

lemma waitPhase_no_save: "saveCalls (waitPhase w u) = []"
  by (simp add: waitPhase_def saveCalls_append saveCalls_cluster_lines saveCalls_machine_lines)

section \<open>The save target\<close>

text \<open>
  Claim C1. In a session where the universe is opened, the work succeeds, the wait (if
  any) ends and save is requested, \<^verbatim>\<open>u.Save\<close> is called once, and the name it gets is
  the override \<^verbatim>\<open>--save-snapshot\<close> when that is not empty, and the snapshot the universe
  was opened with otherwise. So an override is never dropped in favour of the snapshot.
\<close>

theorem save_target_name:
  assumes "openOrCreateUniverse w (dir flags) (snapshot flags) (verbose flags)
             (vmgraphics flags) (wait flags) (acceleration flags) = (Inr u, t0)"
    and "do u = (None, u1)"
    and "wait flags \<Longrightarrow> ctx_Done w"
    and "save flags"
  shows "saveCalls (snd (runDoWithUniverse w flags do)) =
           [if saveName flags \<noteq> [] then saveName flags else snapshot flags]"
  using assms open_calls_no_save[OF open_trace_calls[OF assms(1)]]
  by (auto simp: runDoWithUniverse_def finalize_def saveCalls_append waitPhase_no_save
        effectiveSaveName_def deferred_def Let_def split: option.splits)

theorem save_target_name_witness:
  "saveCalls (snd (runDoWithUniverse demoWorld demoFlags workOk)) = [''next'']"
  using save_target_name [of demoWorld demoFlags 1
      "[CallStat ''/tmp/env1'', CallOpen ''/tmp/env1'' ''base'' (mkConfig False False False True)]"
      workOk 11]
  by (simp add: demoWorld_def demoFlags_def workOk_def openOrCreateUniverse_def)

section \<open>Save and Close in one session\<close>

text \<open>
  Claim C2, as amended. The claim says that a session that reaches the work function
  calls exactly one of \<^verbatim>\<open>u.Save\<close> and \<^verbatim>\<open>u.Close\<close>. The code defers \<^verbatim>\<open>u.Close()\<close> right
  after the universe is opened, so every return from then on calls it, also after a
  save. What holds for every session that opens the universe: unless the work succeeds,
  wait is set and the context is never cancelled, the session returns and \<^verbatim>\<open>Close\<close> is
  called, never neither of the two. The calls to \<^verbatim>\<open>Save\<close> and \<^verbatim>\<open>Close\<close> are then \<^verbatim>\<open>Close\<close>
  alone when the work fails, \<^verbatim>\<open>Save\<close> (line 107) then the deferred \<^verbatim>\<open>Close\<close> when the work
  succeeds and save is requested, and \<^verbatim>\<open>Close\<close> (line 112) then the deferred \<^verbatim>\<open>Close\<close>
  when the work succeeds and save is not requested. In the one remaining case, a wait
  that no cancellation ever ends, the session does not return and calls neither.
\<close>

theorem finalization_calls:
  assumes "openOrCreateUniverse w (dir flags) (snapshot flags) (verbose flags)
             (vmgraphics flags) (wait flags) (acceleration flags) = (Inr u, t0)"
  shows "if fst (do u) = None \<and> wait flags \<and> \<not> ctx_Done w
         then fst (runDoWithUniverse w flags do) = Blocked
              \<and> finalCalls (snd (runDoWithUniverse w flags do)) = []
         else fst (runDoWithUniverse w flags do) \<noteq> Blocked
              \<and> CallClose \<in> set (snd (runDoWithUniverse w flags do))
              \<and> finalCalls (snd (runDoWithUniverse w flags do)) =
                  (if fst (do u) \<noteq> None then [CallClose]
                   else if save flags then [CallSave (effectiveSaveName flags), CallClose]
                   else [CallClose, CallClose])"
  using assms open_calls_no_final[OF open_trace_calls[OF assms(1)]]
  by (auto simp: runDoWithUniverse_def finalize_def finalCalls_append waitPhase_no_final
        deferred_def Let_def finalCalls_simps split: option.splits prod.splits if_splits)

theorem finalization_calls_witness:
  "fst (runDoWithUniverse demoWorld (demoFlags\<lparr>wait := True, save := False\<rparr>) workOk) =
     Return None
   \<and> finalCalls (snd (runDoWithUniverse demoWorld
          (demoFlags\<lparr>wait := True, save := False\<rparr>) workOk)) = [CallClose, CallClose]
   \<and> fst (runDoWithUniverse (demoWorld\<lparr>ctx_Done := False\<rparr>)
          (demoFlags\<lparr>wait := True\<rparr>) workOk) = Blocked
   \<and> finalCalls (snd (runDoWithUniverse (demoWorld\<lparr>ctx_Done := False\<rparr>)
          (demoFlags\<lparr>wait := True\<rparr>) workOk)) = []"
proof -
  have a: "fst (runDoWithUniverse demoWorld
      (demoFlags\<lparr>wait := True, save := False\<rparr>) workOk) = Return None"
    by (simp add: runDoWithUniverse_def openOrCreateUniverse_def finalize_def
        demoWorld_def demoFlags_def workOk_def)
  have b: "finalCalls (snd (runDoWithUniverse demoWorld
      (demoFlags\<lparr>wait := True, save := False\<rparr>) workOk)) = [CallClose, CallClose]"
    using finalization_calls [of demoWorld "demoFlags\<lparr>wait := True, save := False\<rparr>" 1
      "[CallStat ''/tmp/env1'', CallOpen ''/tmp/env1'' ''base'' (mkConfig False False True True)]"
      workOk]
    by (simp add: demoWorld_def demoFlags_def workOk_def openOrCreateUniverse_def)
  have c: "fst (runDoWithUniverse (demoWorld\<lparr>ctx_Done := False\<rparr>)
      (demoFlags\<lparr>wait := True\<rparr>) workOk) = Blocked
    \<and> finalCalls (snd (runDoWithUniverse (demoWorld\<lparr>ctx_Done := False\<rparr>)
      (demoFlags\<lparr>wait := True\<rparr>) workOk)) = []"
    using finalization_calls [of "demoWorld\<lparr>ctx_Done := False\<rparr>" "demoFlags\<lparr>wait := True\<rparr>" 1
      "[CallStat ''/tmp/env1'', CallOpen ''/tmp/env1'' ''base'' (mkConfig False False True True)]"
      workOk]
    by (simp add: demoWorld_def demoFlags_def workOk_def openOrCreateUniverse_def)
  show ?thesis using a b c by simp
qed

text \<open>
  The claim as it stands fails where save is requested and the work succeeds: both
  \<^verbatim>\<open>Save\<close> and \<^verbatim>\<open>Close\<close> are called.
\<close>

theorem save_and_close_both_called:
  "finalCalls (snd (runDoWithUniverse demoWorld demoFlags workOk)) =
     [CallSave ''next'', CallClose]"
  by (simp add: runDoWithUniverse_def openOrCreateUniverse_def finalize_def deferred_def
      effectiveSaveName_def demoWorld_def demoFlags_def workOk_def finalCalls_def mkConfig_def)

section \<open>When the work function fails\<close>

text \<open>
  Claim C3. When the work function returns an error, what follows the opening of the
  universe is the call of the work function, the deferred \<^verbatim>\<open>u.Close()\<close> and the deferred
  \<^verbatim>\<open>cancel()\<close>, and nothing else: \<^verbatim>\<open>u.Save\<close> is not called, whatever the save flag says,
  nothing is printed and the code does not wait. The only call among \<^verbatim>\<open>Save\<close> and
  \<^verbatim>\<open>Close\<close> is one \<^verbatim>\<open>Close\<close>.
\<close>

theorem work_error_closes_without_save:
  assumes "openOrCreateUniverse w (dir flags) (snapshot flags) (verbose flags)
             (vmgraphics flags) (wait flags) (acceleration flags) = (Inr u, t0)"
    and "do u = (Some e, u1)"
  shows "snd (runDoWithUniverse w flags do) = t0 @ [CallDo, CallClose, CallCancel]
         \<and> list_all isOpenPhaseCall t0
         \<and> finalCalls (snd (runDoWithUniverse w flags do)) = [CallClose]
         \<and> saveCalls (snd (runDoWithUniverse w flags do)) = []"
  using assms open_trace_calls[OF assms(1)]
    open_calls_no_final[OF open_trace_calls[OF assms(1)]]
    open_calls_no_save[OF open_trace_calls[OF assms(1)]]
  by (simp add: runDoWithUniverse_def deferred_def finalCalls_append finalCalls_simps
      saveCalls_append)

theorem work_error_closes_without_save_witness:
  "snd (runDoWithUniverse demoWorld (demoFlags\<lparr>wait := True\<rparr>) workFails) =
     [CallStat ''/tmp/env1'', CallOpen ''/tmp/env1'' ''base'' (mkConfig False False True True),
      CallDo, CallClose, CallCancel]
   \<and> save (demoFlags\<lparr>wait := True\<rparr>)"
  using work_error_closes_without_save [of demoWorld "demoFlags\<lparr>wait := True\<rparr>" 1
      "[CallStat ''/tmp/env1'', CallOpen ''/tmp/env1'' ''base'' (mkConfig False False True True)]"
      workFails "ErrOther ''boom''" 11]
  by (simp add: demoWorld_def demoFlags_def workFails_def openOrCreateUniverse_def)

section \<open>When the universe cannot be opened\<close>

text \<open>
  Claim C5. When \<open>openOrCreateUniverse\<close> returns an error, \<open>runDoWithUniverse\<close>
  returns that error behind the prefix \<^verbatim>\<open>Getting universe: \<close> at once. After the calls of
  \<open>openOrCreateUniverse\<close> only the deferred \<^verbatim>\<open>cancel()\<close> runs: the work function is not
  called, and neither \<^verbatim>\<open>Save\<close> nor \<^verbatim>\<open>Close\<close> is.
\<close>

theorem open_failure_ends_session:
  assumes "openOrCreateUniverse w (dir flags) (snapshot flags) (verbose flags)
             (vmgraphics flags) (wait flags) (acceleration flags) = (Inl e, t0)"
  shows "runDoWithUniverse w flags do =
           (Return (Some (Errorf ''Getting universe: '' e)), t0 @ [CallCancel])
         \<and> list_all isOpenPhaseCall t0
         \<and> CallDo \<notin> set (snd (runDoWithUniverse w flags do))
         \<and> finalCalls (snd (runDoWithUniverse w flags do)) = []"
  using assms open_trace_calls[OF assms(1)]
    open_calls_no_final[OF open_trace_calls[OF assms(1)]]
    open_calls_no_do[OF open_trace_calls[OF assms(1)]]
  by (simp add: runDoWithUniverse_def finalCalls_append finalCalls_simps)

theorem open_failure_ends_session_witness:
  "runDoWithUniverse demoWorld (demoFlags\<lparr>snapshot := ''missing''\<rparr>) workOk =
     (Return (Some (ErrOther ''Getting universe: getting universe: no such snapshot'')),
      [CallStat ''/tmp/env1'',
       CallOpen ''/tmp/env1'' ''missing'' (mkConfig False False False True), CallCancel])"
  using open_failure_ends_session [of demoWorld "demoFlags\<lparr>snapshot := ''missing''\<rparr>"
      "ErrOther ''getting universe: no such snapshot''"
      "[CallStat ''/tmp/env1'', CallOpen ''/tmp/env1'' ''missing'' (mkConfig False False False True)]"
      workOk]
  by (simp add: demoWorld_def demoFlags_def openOrCreateUniverse_def Errorf_def)

section \<open>The error of the work function\<close>

text \<open>
  Claim C7. When the work function returns an error, \<open>runDoWithUniverse\<close> returns that
  very error: no prefix is put before it, and the error of the deferred \<^verbatim>\<open>u.Close()\<close>,
  if there is one, does not replace it.
\<close>

theorem work_error_returned_unchanged:
  assumes "openOrCreateUniverse w (dir flags) (snapshot flags) (verbose flags)
             (vmgraphics flags) (wait flags) (acceleration flags) = (Inr u, t0)"
    and "do u = (Some e, u1)"
  shows "fst (runDoWithUniverse w flags do) = Return (Some e)"
  using assms by (simp add: runDoWithUniverse_def)

theorem work_error_returned_unchanged_witness:
  "fst (runDoWithUniverse demoWorld (demoFlags\<lparr>dir := ''/x''\<rparr>) workFails) =
     Return (Some (ErrOther ''boom''))
   \<and> u_Close demoWorld 10 = Some (ErrOther ''close failed'')"
  using work_error_returned_unchanged [of demoWorld "demoFlags\<lparr>dir := ''/x''\<rparr>" 0
      "[CallStat ''/x'', CallCreate ''/x'' (mkConfig False False False True)]"
      workFails "ErrOther ''boom''" 10]
  by (simp add: demoWorld_def demoFlags_def workFails_def openOrCreateUniverse_def)

section \<open>Open or create\<close>

text \<open>
  Claim C4, as amended. The claim speaks of every directory path. The code first
  refuses the empty path (line 123): for it, whatever the other arguments and the world,
  the error \<^verbatim>\<open>universe directory not specified\<close> is returned and nothing is called, not
  even the stat. For every path that is not empty, \<open>openOrCreateUniverse\<close> stats the
  directory and takes exactly one of three ways: when the directory does not exist it
  calls \<^verbatim>\<open>Create\<close> and not \<^verbatim>\<open>Open\<close>; when the stat succeeds it calls \<^verbatim>\<open>Open\<close> with the
  requested snapshot and not \<^verbatim>\<open>Create\<close>; on any other stat error it returns that error
  as it is and calls neither.
\<close>

theorem open_or_create_one_branch:
  "(d = [] \<longrightarrow>
      openOrCreateUniverse w d snap verb gfx ia accel =
        (Inl (ErrOther ''universe directory not specified''), []))
   \<and> (d \<noteq> [] \<longrightarrow>
        (IsNotExist (os_Stat w d) \<longrightarrow>
            snd (openOrCreateUniverse w d snap verb gfx ia accel) =
              [CallStat d, CallCreate d (mkConfig verb gfx ia accel)])
       \<and> (os_Stat w d = None \<longrightarrow>
            snd (openOrCreateUniverse w d snap verb gfx ia accel) =
              [CallStat d, CallOpen d snap (mkConfig verb gfx ia accel)])
       \<and> (\<forall>e. os_Stat w d = Some e \<and> \<not> IsNotExist (Some e) \<longrightarrow>
            openOrCreateUniverse w d snap verb gfx ia accel = (Inl e, [CallStat d])))"
  by (auto simp: openOrCreateUniverse_def errors_New_def Let_def
      split: sum.splits option.splits)

theorem open_or_create_one_branch_witness:
  "snd (openOrCreateUniverse demoWorld ''/x'' ''base'' False False False True) =
     [CallStat ''/x'', CallCreate ''/x'' (mkConfig False False False True)]
   \<and> snd (openOrCreateUniverse demoWorld ''/tmp/env1'' ''base'' False False False True) =
     [CallStat ''/tmp/env1'', CallOpen ''/tmp/env1'' ''base'' (mkConfig False False False True)]
   \<and> openOrCreateUniverse demoWorld ''/root/env'' ''base'' False False False True =
     (Inl (ErrOther ''permission denied''), [CallStat ''/root/env''])
   \<and> openOrCreateUniverse demoWorld [] ''snap'' True True True False =
     (Inl (ErrOther ''universe directory not specified''), [])"
  using open_or_create_one_branch [of "''/x''" demoWorld "''base''" False False False True]
    open_or_create_one_branch [of "''/tmp/env1''" demoWorld "''base''" False False False True]
    open_or_create_one_branch [of "''/root/env''" demoWorld "''base''" False False False True]
    open_or_create_one_branch [of "[]" demoWorld "''snap''" True True True False]
  by (simp add: demoWorld_def)

text \<open>
  The claim as it stands fails at the empty path: no directory of that name exists, and
  yet \<^verbatim>\<open>Create\<close> is not called; the error returned is the code's own.
\<close>

theorem empty_dir_takes_no_branch:
  "IsNotExist (os_Stat demoWorld [])
   \<and> openOrCreateUniverse demoWorld [] ''base'' False False False True =
       (Inl (ErrOther ''universe directory not specified''), [])"
  by (simp add: demoWorld_def openOrCreateUniverse_def errors_New_def)

section \<open>The interactive field\<close>

lemma open_trace_interactive:
  "CallCreate d cfg \<in> set (snd (openOrCreateUniverse w d0 s0 v g i a))
   \<or> CallOpen d s cfg \<in> set (snd (openOrCreateUniverse w d0 s0 v g i a))
   \<Longrightarrow> Interactive cfg = i"
  by (auto simp: openOrCreateUniverse_def Let_def mkConfig_def
      split: if_splits sum.splits option.splits)

lemma finalize_no_open_calls:
  "finalize w flags u = (r, t) \<Longrightarrow> e \<in> set t \<Longrightarrow> \<not> isOpenPhaseCall e"
  by (auto simp: finalize_def deferred_def split: option.splits if_splits)

lemma waitPhase_no_open_calls:
  "e \<in> set (waitPhase w u) \<Longrightarrow> \<not> isOpenPhaseCall e"
  by (auto simp: waitPhase_def)

lemma run_open_calls:
  "isOpenPhaseCall e \<Longrightarrow> e \<in> set (snd (runDoWithUniverse w flags do)) \<Longrightarrow>
   e \<in> set (snd (openOrCreateUniverse w (dir flags) (snapshot flags) (verbose flags)
             (vmgraphics flags) (wait flags) (acceleration flags)))"
  by (auto simp: runDoWithUniverse_def deferred_def Let_def
      split: prod.splits sum.splits option.splits if_splits
      dest: finalize_no_open_calls waitPhase_no_open_calls)

text \<open>
  Claim C9. Every configuration that \<open>runDoWithUniverse\<close> hands to \<^verbatim>\<open>Create\<close> or to
  \<^verbatim>\<open>Open\<close> has its \<open>Interactive\<close> field equal to the wait flag: the flags record has no
  field of its own for it.
\<close>

theorem interactive_is_wait:
  assumes "CallCreate d cfg \<in> set (snd (runDoWithUniverse w flags do))
           \<or> CallOpen d s cfg \<in> set (snd (runDoWithUniverse w flags do))"
  shows "Interactive cfg = wait flags"
  using assms run_open_calls[of "CallCreate d cfg" w flags do]
    run_open_calls[of "CallOpen d s cfg" w flags do] open_trace_interactive
  by fastforce

theorem interactive_is_wait_witness:
  "CallOpen ''/tmp/env1'' ''base''
     \<lparr>VMGraphics = False, Interactive = True, NoAcceleration = False, CommandLog = None\<rparr>
     \<in> set (snd (runDoWithUniverse demoWorld (demoFlags\<lparr>wait := True\<rparr>) workOk))
   \<and> wait (demoFlags\<lparr>wait := True\<rparr>)"
proof -
  have h: "CallOpen ''/tmp/env1'' ''base''
     \<lparr>VMGraphics = False, Interactive = True, NoAcceleration = False, CommandLog = None\<rparr>
     \<in> set (snd (runDoWithUniverse demoWorld (demoFlags\<lparr>wait := True\<rparr>) workOk))"
    by (simp add: runDoWithUniverse_def openOrCreateUniverse_def finalize_def deferred_def
        demoWorld_def demoFlags_def workOk_def mkConfig_def)
  from interactive_is_wait [OF disjI2 [OF h]] h show ?thesis by simp
qed

section \<open>The error of the provider\<close>

text \<open>
  Claim C10. When \<^verbatim>\<open>Create\<close> or \<^verbatim>\<open>Open\<close> is called and fails with an error \<open>e\<close>, the
  error that \<open>runDoWithUniverse\<close> returns carries both prefixes: its message is
  \<^verbatim>\<open>Getting universe: getting universe: \<close> followed by the message of \<open>e\<close>.
\<close>

theorem provider_error_wrapped_twice:
  assumes "dir flags \<noteq> []"
    and "cfg = mkConfig (verbose flags) (vmgraphics flags) (wait flags) (acceleration flags)"
    and "(IsNotExist (os_Stat w (dir flags)) \<and> vk_Create w (dir flags) cfg = Inl e)
         \<or> (os_Stat w (dir flags) = None \<and> vk_Open w (dir flags) (snapshot flags) cfg = Inl e)"
  shows "fst (runDoWithUniverse w flags do) =
           Return (Some (ErrOther (''Getting universe: '' @ ''getting universe: '' @ Error e)))"
  using assms
  by (auto simp: runDoWithUniverse_def openOrCreateUniverse_def Errorf_def Let_def)

theorem provider_error_wrapped_twice_witness:
  "fst (runDoWithUniverse demoWorld (demoFlags\<lparr>dir := ''/proc/env''\<rparr>) workOk) =
     Return (Some (ErrOther ''Getting universe: getting universe: mkdir failed''))"
  using provider_error_wrapped_twice [of "demoFlags\<lparr>dir := ''/proc/env''\<rparr>"
      "mkConfig False False False True" demoWorld "ErrOther ''mkdir failed''" workOk]
  by (simp add: demoWorld_def demoFlags_def)

section \<open>The printed duration\<close>

lemma Truncate_wholeUnits: "0 < m \<Longrightarrow> Truncate d m = wholeUnits d m"
proof -
  assume m: "0 < m"
  have "sgn d * ((\<bar>d\<bar> div m) * m + \<bar>d\<bar> mod m) = d"
    by (simp add: mult_sgn_abs)
  moreover have "sgn d * ((\<bar>d\<bar> div m) * m + \<bar>d\<bar> mod m) =
      sgn d * (\<bar>d\<bar> div m) * m + sgn d * (\<bar>d\<bar> mod m)"
    by (simp only: distrib_left mult.assoc)
  ultimately have "d - sgn d * (\<bar>d\<bar> mod m) = sgn d * (\<bar>d\<bar> div m) * m"
    by linarith
  then show ?thesis using m
    by (simp add: Truncate_def wholeUnits_def signed_modulo_int_def)
qed

lemma displayDuration_wholeUnits:
  "displayDuration d = (if d < Second then wholeUnits d Millisecond else wholeUnits d Second)"
  by (simp add: displayDuration_def Truncate_wholeUnits Second_def Millisecond_def Nanosecond_def)

text \<open>
  What \<open>wholeUnits\<close> is: a multiple of the unit, between zero and \<open>d\<close>, less than one
  unit away from \<open>d\<close>.
\<close>

lemma wholeUnits_props:
  assumes "0 < u"
  shows "u dvd wholeUnits d u" "\<bar>wholeUnits d u\<bar> \<le> \<bar>d\<bar>" "\<bar>d - wholeUnits d u\<bar> < u"
    "0 \<le> d \<Longrightarrow> 0 \<le> wholeUnits d u" "d \<le> 0 \<Longrightarrow> wholeUnits d u \<le> 0"
proof -
  have q: "0 \<le> \<bar>d\<bar> div u" using assms by (simp add: pos_imp_zdiv_nonneg_iff)
  have r: "\<bar>d\<bar> - (\<bar>d\<bar> div u) * u = \<bar>d\<bar> mod u" by (simp add: minus_div_mult_eq_mod)
  have r0: "0 \<le> \<bar>d\<bar> mod u" "\<bar>d\<bar> mod u < u" using assms by simp_all
  have le: "(\<bar>d\<bar> div u) * u \<le> \<bar>d\<bar>" using r r0 by linarith
  show "u dvd wholeUnits d u" by (simp add: wholeUnits_def)
  consider "d < 0" | "d = 0" | "0 < d" by linarith
  then have "\<bar>wholeUnits d u\<bar> \<le> \<bar>d\<bar> \<and> \<bar>d - wholeUnits d u\<bar> < u
       \<and> (0 \<le> d \<longrightarrow> 0 \<le> wholeUnits d u) \<and> (d \<le> 0 \<longrightarrow> wholeUnits d u \<le> 0)"
  proof cases
    case 1
    then have w: "wholeUnits d u = - ((\<bar>d\<bar> div u) * u)" by (simp add: wholeUnits_def)
    have "0 \<le> (\<bar>d\<bar> div u) * u" using q assms by simp
    then show ?thesis using 1 w le r r0 by linarith
  next
    case 2
    then show ?thesis using assms by (simp add: wholeUnits_def)
  next
    case 3
    then have w: "wholeUnits d u = (\<bar>d\<bar> div u) * u" by (simp add: wholeUnits_def)
    have "0 \<le> (\<bar>d\<bar> div u) * u" using q assms by simp
    then show ?thesis using 3 w le r r0 by linarith
  qed
  then show "\<bar>wholeUnits d u\<bar> \<le> \<bar>d\<bar>" "\<bar>d - wholeUnits d u\<bar> < u"
    "0 \<le> d \<Longrightarrow> 0 \<le> wholeUnits d u" "d \<le> 0 \<Longrightarrow> wholeUnits d u \<le> 0"
    by simp_all
qed

lemma open_trace_no_took:
  "openOrCreateUniverse w d s v g i a = (r, t) \<Longrightarrow> Print (OperationTook x) \<in> set t \<Longrightarrow> False"
  by (auto simp: openOrCreateUniverse_def Let_def split: if_splits sum.splits option.splits)

lemma finalize_no_took:
  "finalize w flags u = (r, t) \<Longrightarrow> Print (OperationTook x) \<in> set t \<Longrightarrow> False"
  by (auto simp: finalize_def deferred_def split: option.splits if_splits)

lemma waitPhase_no_took: "Print (OperationTook x) \<in> set (waitPhase w u) \<Longrightarrow> False"
  by (auto simp: waitPhase_def)

lemma run_took:
  "Print (OperationTook x) \<in> set (snd (runDoWithUniverse w flags do)) \<Longrightarrow>
   x = displayDuration (time_Since w)"
  by (auto simp: runDoWithUniverse_def deferred_def Let_def
      split: prod.splits sum.splits option.splits if_splits
      dest: open_trace_no_took finalize_no_took waitPhase_no_took)

text \<open>
  Claim C8. Whenever \<open>runDoWithUniverse\<close> prints an elapsed time, the duration printed
  is the elapsed duration truncated to whole milliseconds when that is under one
  second, and truncated to whole seconds otherwise. The second case of the \<^verbatim>\<open>switch\<close>,
  which would truncate to tenths of a second, is never taken.
\<close>

theorem printed_duration_truncation:
  assumes "Print (OperationTook x) \<in> set (snd (runDoWithUniverse w flags do))"
  shows "x = (if time_Since w < Second then wholeUnits (time_Since w) Millisecond
              else wholeUnits (time_Since w) Second)"
  using run_took[OF assms] by (simp add: displayDuration_wholeUnits)

theorem printed_duration_truncation_witness:
  "Print (OperationTook 1000000000)
     \<in> set (snd (runDoWithUniverse demoWorld demoFlags workOk))
   \<and> time_Since demoWorld = 1234567890
   \<and> Print (OperationTook 999000000)
     \<in> set (snd (runDoWithUniverse (demoWorld\<lparr>time_Since := 999999999\<rparr>) demoFlags workOk))"
proof -
  have h1: "Print (OperationTook (displayDuration 1234567890))
     \<in> set (snd (runDoWithUniverse demoWorld demoFlags workOk))"
    by (simp add: runDoWithUniverse_def openOrCreateUniverse_def finalize_def deferred_def
        demoWorld_def demoFlags_def workOk_def)
  have h2: "Print (OperationTook (displayDuration 999999999))
     \<in> set (snd (runDoWithUniverse (demoWorld\<lparr>time_Since := 999999999\<rparr>) demoFlags workOk))"
    by (simp add: runDoWithUniverse_def openOrCreateUniverse_def finalize_def deferred_def
        demoWorld_def demoFlags_def workOk_def)
  have t: "time_Since demoWorld = 1234567890" by (simp add: demoWorld_def)
  have e1: "displayDuration 1234567890 = 1000000000"
    using printed_duration_truncation [OF h1]
    by (simp add: t wholeUnits_def Second_def Millisecond_def Nanosecond_def)
  have e2: "displayDuration 999999999 = 999000000"
    using printed_duration_truncation [OF h2]
    by (simp add: wholeUnits_def Second_def Millisecond_def Nanosecond_def)
  show ?thesis using h1 h2 t e1 e2 by simp
qed

section \<open>Cancellation\<close>

lemma fireInv_step: "fireInv c \<Longrightarrow> fireInv (step a c)"
  by (cases a) (auto simp: fireInv_def cancel_def)

lemma fireInv_fold: "fireInv c \<Longrightarrow> fireInv (fold step sched c)"
  by (induction sched arbitrary: c) (simp_all add: fireInv_step)

lemma cancelled_step: "cancelled c \<Longrightarrow> cancelled (step a c)"
  by (cases a) (auto simp: cancel_def)

lemma cancelled_fold: "cancelled c \<Longrightarrow> cancelled (fold step sched c)"
  by (induction sched arbitrary: c) (simp_all add: cancelled_step)

text \<open>
  Claim C6. Under every schedule of interrupts, moves of the listener and the return of
  \<open>runDoWithUniverse\<close>, the context is cancelled at most once. Once it is cancelled,
  nothing that follows, interrupts included, cancels it again or undoes it.
\<close>

theorem cancellation_fires_at_most_once:
  "fired (fold step sched initCtl) \<le> 1
   \<and> (cancelled (fold step sched initCtl) \<longrightarrow>
        fired (fold step later (fold step sched initCtl)) = fired (fold step sched initCtl)
        \<and> cancelled (fold step later (fold step sched initCtl)))"
proof -
  have i0: "fireInv initCtl" by (simp add: fireInv_def initCtl_def)
  have i1: "fireInv (fold step sched initCtl)" by (rule fireInv_fold[OF i0])
  have i2: "fireInv (fold step later (fold step sched initCtl))" by (rule fireInv_fold[OF i1])
  show ?thesis using i1 i2 cancelled_fold[of "fold step sched initCtl" later]
    by (auto simp: fireInv_def split: if_splits)
qed

theorem cancellation_fires_at_most_once_witness:
  "fired (fold step [Interrupt, SelectStop] initCtl) = 1
   \<and> cancelled (fold step [Interrupt, SelectStop] initCtl)
   \<and> fired (fold step [Interrupt, Interrupt, SelectDone, MainReturn, Interrupt]
        (fold step [Interrupt, SelectStop] initCtl)) = 1"
  using cancellation_fires_at_most_once [of "[Interrupt, SelectStop]"
      "[Interrupt, Interrupt, SelectDone, MainReturn, Interrupt]"]
  by (simp add: initCtl_def cancel_def)

end
